theory Spec2Isabelle
  imports Main
begin

section \<open>Grid sorting controller (ts/Grid/Core/Querying/SortingController.ts)\<close>

subsection \<open>Run-time values\<close>

text \<open>
  TypeScript types are erased when the controller runs, so an order slot holds whatever
  JavaScript value the caller or the column options put there. The three shapes that the
  controller can tell apart are kept: \<open>undefined\<close> (also the result of an optional chain
  \<open>?.\<close> on a missing object), \<open>null\<close>, and a string such as \<open>'asc'\<close>. Strict
  inequality \<open>!==\<close> on these values is HOL inequality.
\<close>

datatype order_value = Undefined | Null | Str string

text \<open>JavaScript truthiness: \<open>undefined\<close>, \<open>null\<close> and the empty string are falsy.\<close>

definition truthy :: "order_value \<Rightarrow> bool" where
  "truthy v = (case v of Undefined \<Rightarrow> False | Null \<Rightarrow> False | Str s \<Rightarrow> s \<noteq> [])"

text \<open>
  A column identifier is \<open>string | undefined\<close>; \<open>None\<close> is \<open>undefined\<close>. It is falsy
  when it is \<open>undefined\<close> or the empty string.
\<close>

definition truthyId :: "string option \<Rightarrow> bool" where
  "truthyId v = (case v of None \<Rightarrow> False | Some s \<Rightarrow> s \<noteq> [])"

text \<open>
  Modelled from the spec: the enumerated set of order values. The type
  \<open>ColumnSortingOrder\<close> is declared in \<open>Options.ts\<close>, which is not among the sources;
  the spec names its members \<open>ascending\<close>, \<open>descending\<close> and \<open>none\<close> (\<open>null\<close>).
\<close>

definition ColumnSortingOrder :: "order_value set" where
  "ColumnSortingOrder = {Str ''ascending'', Str ''descending'', Null}"

subsection \<open>Column options, grid and querying controller\<close>

text \<open>
  The comparator of a column is an opaque function for the controller, which only passes
  it on; \<open>'cmp\<close> is its type. Every level that the source reads through \<open>?.\<close> or
  \<open>|| {}\<close> is optional.
\<close>

record 'cmp ColumnSortingOptions =
  order :: order_value
  compare :: "'cmp option"

record 'cmp ColumnOptions =
  sorting :: "'cmp ColumnSortingOptions option"

record 'cmp Column =
  options :: "'cmp ColumnOptions option"

text \<open>
  \<open>columnOptionsMap\<close> is a JavaScript object. It is kept as an association list in the
  order in which \<open>Object.keys\<close> enumerates it; \<open>columnOptionsMap[columnId]\<close> is
  \<open>map_of\<close>.
\<close>

type_synonym 'cmp ColumnOptionsMap = "(string \<times> 'cmp Column) list"

record 'cmp Grid =
  columnOptionsMap :: "'cmp ColumnOptionsMap option"

record 'cmp QueryingController =
  grid :: "'cmp Grid"
  shouldBeUpdated :: bool

subsection \<open>Sorting state, modifier and controller\<close>

record SortingState =
  columnId :: "string option"
  order :: order_value

text \<open>
  The class \<open>SortModifier\<close> lives outside the controller; a modifier is represented by
  the options object that the controller hands to its constructor.
\<close>

record 'cmp SortModifier =
  orderByColumn :: string
  direction :: order_value
  compare :: "'cmp option"

record 'cmp SortingController =
  querying :: "'cmp QueryingController"
  currentSorting :: "SortingState option"
  initialSorting :: "SortingState option"
  modifier :: "'cmp SortModifier option"

text \<open>\<open>new SortingController(querying)\<close>: every optional property starts out unset.\<close>

definition newSortingController :: "'cmp QueryingController \<Rightarrow> 'cmp SortingController" where
  "newSortingController q =
     \<lparr>querying = q, currentSorting = None, initialSorting = None, modifier = None\<rparr>"

text \<open>The optional chains \<open>state?.columnId\<close> and \<open>state?.order\<close>.\<close>

definition optColumnId :: "SortingState option \<Rightarrow> string option" where
  "optColumnId state = (case state of None \<Rightarrow> None | Some s \<Rightarrow> columnId s)"

definition optOrder :: "SortingState option \<Rightarrow> order_value" where
  "optOrder state = (case state of None \<Rightarrow> Undefined | Some s \<Rightarrow> SortingState.order s)"

subsection \<open>createModifier\<close>

text \<open>
  \<open>this.querying.grid.columnOptionsMap?.[columnId]?.options?.sorting?.compare\<close>
\<close>

definition compareOf :: "'cmp Grid \<Rightarrow> string \<Rightarrow> 'cmp option" where
  "compareOf g cid =
     (case columnOptionsMap g of None \<Rightarrow> None
      | Some m \<Rightarrow>
         (case map_of m cid of None \<Rightarrow> None
          | Some column \<Rightarrow>
             (case options column of None \<Rightarrow> None
              | Some opts \<Rightarrow>
                 (case sorting opts of None \<Rightarrow> None
                  | Some s \<Rightarrow> ColumnSortingOptions.compare s))))"

definition createModifier :: "'cmp SortingController \<Rightarrow> 'cmp SortModifier option" where
  "createModifier this =
     (case currentSorting this of
        None \<Rightarrow> None
      | Some cs \<Rightarrow>
         (if \<not> truthy (SortingState.order cs) \<or> \<not> truthyId (columnId cs) then None
          else
            (case columnId cs of
               None \<Rightarrow> None
             | Some cid \<Rightarrow>
                 Some \<lparr>orderByColumn = cid,
                       direction = SortingState.order cs,
                       compare = compareOf (grid (querying this)) cid\<rparr>)))"

subsection \<open>setSorting\<close>

definition setSorting ::
  "'cmp SortingController \<Rightarrow> order_value \<Rightarrow> string option \<Rightarrow> 'cmp SortingController" where
  "setSorting this ord cid =
     (let this1 =
        (if optColumnId (currentSorting this) \<noteq> cid \<or> optOrder (currentSorting this) \<noteq> ord
         then this\<lparr>querying := (querying this)\<lparr>shouldBeUpdated := True\<rparr>,
                   currentSorting := Some \<lparr>columnId = cid, order = ord\<rparr>\<rparr>
         else this)
      in this1\<lparr>modifier := createModifier this1\<rparr>)"

subsection \<open>getSortingOptions\<close>

text \<open>
  The text handed to \<open>console.warn\<close>; a template literal renders \<open>undefined\<close> by its
  name.
\<close>

definition conflictWarning :: "string option \<Rightarrow> string" where
  "conflictWarning found =
     ''Grid: Only one column can be sorted at a time. '' @
     ''Data will be sorted only by the last found column '' @
     ''with the sorting order defined in the options: \"'' @
     (case found of None \<Rightarrow> ''undefined'' | Some s \<Rightarrow> s) @ ''\".''"

text \<open>\<open>(columnOptionsMap[columnId]?.options || {}).sorting?.order\<close>\<close>

definition declaredOrder :: "'cmp ColumnOptionsMap \<Rightarrow> string \<Rightarrow> order_value" where
  "declaredOrder m cid =
     (let columnOptions =
        (case map_of m cid of None \<Rightarrow> \<lparr>sorting = None\<rparr>
         | Some column \<Rightarrow>
            (case options column of None \<Rightarrow> \<lparr>sorting = None\<rparr> | Some opts \<Rightarrow> opts))
      in case sorting columnOptions of None \<Rightarrow> Undefined
         | Some s \<Rightarrow> ColumnSortingOptions.order s)"

text \<open>
  The loop \<open>for (let i = columnIDs.length - 1; i > -1; --i)\<close>. The counter of the model
  is \<open>i + 1\<close>, so the loop is over at \<open>0\<close>. The result is the pair of the returned state
  and the warnings written to the console; \<open>break\<close> leaves the loop for the
  \<open>return\<close> that follows it.
\<close>

fun scanColumns ::
  "'cmp ColumnOptionsMap \<Rightarrow> string list \<Rightarrow> nat \<Rightarrow> order_value \<Rightarrow> string option
     \<Rightarrow> SortingState \<times> string list" where
  "scanColumns m columnIDs 0 foundOrder foundColumnId =
     (\<lparr>columnId = foundColumnId, order = foundOrder\<rparr>, [])"
| "scanColumns m columnIDs (Suc i) foundOrder foundColumnId =
     (let cid = columnIDs ! i;
          ord = declaredOrder m cid
      in if truthy ord then
           (if truthyId foundColumnId
            then (\<lparr>columnId = foundColumnId, order = foundOrder\<rparr>,
                  [conflictWarning foundColumnId])
            else scanColumns m columnIDs i ord (Some cid))
         else scanColumns m columnIDs i foundOrder foundColumnId)"

definition getSortingOptions :: "'cmp SortingController \<Rightarrow> SortingState \<times> string list" where
  "getSortingOptions this =
     (case columnOptionsMap (grid (querying this)) of
        None \<Rightarrow> (\<lparr>columnId = None, order = Null\<rparr>, [])
      | Some m \<Rightarrow>
          (let columnIDs = map fst m
           in scanColumns m columnIDs (length columnIDs) Null None))"

subsection \<open>loadOptions\<close>

text \<open>The second component is what the call wrote to the console.\<close>

definition loadOptions :: "'cmp SortingController \<Rightarrow> 'cmp SortingController \<times> string list" where
  "loadOptions this =
     (let (stateFromOptions, warnings) = getSortingOptions this
      in if columnId stateFromOptions \<noteq> optColumnId (initialSorting this) \<or>
            SortingState.order stateFromOptions \<noteq> optOrder (initialSorting this)
         then (setSorting (this\<lparr>initialSorting := Some stateFromOptions\<rparr>)
                 (SortingState.order stateFromOptions) (columnId stateFromOptions),
               warnings)
         else (this, warnings))"

subsection \<open>Notions used by the properties\<close>

text \<open>
  The columns that declare a non-empty sorting order, in the order of the list, which for
  the map that the controller reads is the order of \<open>Object.keys\<close>: the ones for
  which the test \<open>if (order)\<close> of the scan succeeds.
\<close>

definition declaringColumns :: "'cmp ColumnOptionsMap \<Rightarrow> string list" where
  "declaringColumns m = filter (\<lambda>cid. truthy (declaredOrder m cid)) (map fst m)"

text \<open>
  How the order of \<open>Object.keys\<close> (line 129) comes from the order in which the keys
  of an ordinary object were created, that is, in which the columns were declared. A key
  is an array index when it is the canonical decimal numeral of an integer from \<open>0\<close>
  to \<open>2^32 - 2\<close>: digits only, and no leading zero unless it is \<open>'0'\<close> itself.
  \<open>Object.keys\<close> lists the array indices first, in ascending numeric order, and then
  every other key in the order of creation. The keys of \<open>declared\<close> are taken to be
  distinct, as the keys of an object are.
\<close>

definition decimalDigit :: "char \<Rightarrow> bool" where
  "decimalDigit c = (c \<in> set ''0123456789'')"

definition decimalValue :: "string \<Rightarrow> nat" where
  "decimalValue s = foldl (\<lambda>n c. 10 * n + (of_char c - 48)) 0 s"

definition arrayIndex :: "string \<Rightarrow> bool" where
  "arrayIndex s =
     (s \<noteq> [] \<and> list_all decimalDigit s \<and>
      (if hd s = CHR ''0'' then s = ''0'' else True) \<and>
      decimalValue s < 2 ^ 32 - 1)"

definition objectKeys :: "(string \<times> 'a) list \<Rightarrow> (string \<times> 'a) list" where
  "objectKeys declared =
     sort_key (\<lambda>(k, v). decimalValue k) (filter (\<lambda>(k, v). arrayIndex k) declared) @
     filter (\<lambda>(k, v). \<not> arrayIndex k) declared"

text \<open>
  Modelled from the spec: the recomputation step that clears the dirty flag. It belongs to
  the querying controller and the rendering code, which are not among the sources; the
  spec says that after a successful recompute the flag is false.
\<close>

definition clearShouldBeUpdated :: "'cmp SortingController \<Rightarrow> 'cmp SortingController" where
  "clearShouldBeUpdated this = this\<lparr>querying := (querying this)\<lparr>shouldBeUpdated := False\<rparr>\<rparr>"

text \<open>
  What a host can do to the controller: the two public methods, and replacing the column
  options of the grid that the controller reads.
\<close>

datatype 'cmp call =
    SetSorting order_value "string option"
  | LoadOptions
  | SetColumnOptionsMap "'cmp ColumnOptionsMap option"

fun perform :: "'cmp SortingController \<Rightarrow> 'cmp call \<Rightarrow> 'cmp SortingController" where
  "perform this (SetSorting ord cid) = setSorting this ord cid"
| "perform this LoadOptions = fst (loadOptions this)"
| "perform this (SetColumnOptionsMap m) =
     this\<lparr>querying := (querying this)\<lparr>grid := \<lparr>columnOptionsMap = m\<rparr>\<rparr>\<rparr>"

definition performAll :: "'cmp SortingController \<Rightarrow> 'cmp call list \<Rightarrow> 'cmp SortingController" where
  "performAll this calls = foldl perform this calls"

text \<open>A run of direct \<open>setSorting\<close> calls, each given as \<open>(order, columnId)\<close>.\<close>

definition setSortings ::
  "'cmp SortingController \<Rightarrow> (order_value \<times> string option) list \<Rightarrow> 'cmp SortingController" where
  "setSortings this args = foldl (\<lambda>t (ord, cid). setSorting t ord cid) this args"

subsection \<open>Sample configurations\<close>

text \<open>Comparators are named by numbers in the samples.\<close>

definition sortedColumn :: "order_value \<Rightarrow> nat option \<Rightarrow> nat Column" where
  "sortedColumn ord cmp =
     \<lparr>options = Some \<lparr>sorting =
        Some \<lparr>ColumnSortingOptions.order = ord, ColumnSortingOptions.compare = cmp\<rparr>\<rparr>\<rparr>"

definition plainColumn :: "nat Column" where
  "plainColumn = \<lparr>options = Some \<lparr>sorting = None\<rparr>\<rparr>"

definition gridWith :: "nat ColumnOptionsMap option \<Rightarrow> nat QueryingController" where
  "gridWith m = \<lparr>grid = \<lparr>columnOptionsMap = m\<rparr>, shouldBeUpdated = False\<rparr>"

text \<open>\<open>{ A: asc, B: desc }\<close>: a conflict between two columns.\<close>

definition conflictAB :: "nat ColumnOptionsMap" where
  "conflictAB =
     [(''A'', sortedColumn (Str ''asc'') None), (''B'', sortedColumn (Str ''desc'') (Some 7))]"

text \<open>Three declaring columns and one that declares nothing.\<close>

definition conflictABC :: "nat ColumnOptionsMap" where
  "conflictABC =
     [(''A'', sortedColumn (Str ''asc'') None), (''B'', sortedColumn (Str ''desc'') None),
      (''N'', plainColumn), (''C'', sortedColumn (Str ''asc'') None)]"

text \<open>A conflict in which the last declaring column has the empty string as its key.\<close>

definition conflictEmptyKey :: "nat ColumnOptionsMap" where
  "conflictEmptyKey =
     [(''A'', sortedColumn (Str ''asc'') None), ([], sortedColumn (Str ''desc'') None)]"

text \<open>
  Columns declared as \<open>{ B: desc, '1': asc }\<close>, in this order: the key of the column
  declared last is an array index.
\<close>

definition numericKeyDeclared :: "nat ColumnOptionsMap" where
  "numericKeyDeclared =
     [(''B'', sortedColumn (Str ''desc'') None), (''1'', sortedColumn (Str ''asc'') None)]"

text \<open>Columns none of which declares an order.\<close>

definition noSorting :: "nat ColumnOptionsMap" where
  "noSorting =
     [(''A'', plainColumn), (''B'', sortedColumn Null None), (''C'', \<lparr>options = None\<rparr>)]"

text \<open>
  A controller sorted by \<open>B\<close> whose modifier was built while the comparator of that
  column was \<open>3\<close>; the column options hold the comparator \<open>7\<close> by now.
\<close>

definition staleComparator :: "nat SortingController" where
  "staleComparator =
     \<lparr>querying = gridWith (Some conflictAB),
      currentSorting = Some \<lparr>columnId = Some ''B'', order = Str ''desc''\<rparr>,
      initialSorting = Some \<lparr>columnId = Some ''B'', order = Str ''desc''\<rparr>,
      modifier = Some \<lparr>orderByColumn = ''B'', direction = Str ''desc'', compare = Some 3\<rparr>\<rparr>"


section \<open>Properties\<close>

subsection \<open>The column scan\<close>

text \<open>The scan never returns \<open>undefined\<close> as the order when it starts from \<open>null\<close>.\<close>

lemma scanColumns_order_defined:
  "foundOrder \<noteq> Undefined \<Longrightarrow>
   SortingState.order (fst (scanColumns m columnIDs n foundOrder foundColumnId)) \<noteq> Undefined"
proof (induction n arbitrary: foundOrder foundColumnId)
  case 0
  then show ?case by simp
next
  case (Suc i)
  have "truthy (declaredOrder m (columnIDs ! i)) \<Longrightarrow> declaredOrder m (columnIDs ! i) \<noteq> Undefined"
    by (auto simp: truthy_def)
  with Suc show ?case
    by (simp add: Let_def)
qed

text \<open>Columns without a truthy order are skipped.\<close>

lemma scanColumns_none_declared:
  "n \<le> length columnIDs \<Longrightarrow>
   filter (\<lambda>cid. truthy (declaredOrder m cid)) (take n columnIDs) = [] \<Longrightarrow>
   scanColumns m columnIDs n foundOrder foundColumnId =
     (\<lparr>columnId = foundColumnId, order = foundOrder\<rparr>, [])"
  by (induction n arbitrary: foundOrder foundColumnId)
     (auto simp: Let_def take_Suc_conv_app_nth split: if_splits)



subsection \<open>What each method reads and writes\<close>

lemma getSortingOptions_reads_grid:
  "grid (querying a) = grid (querying b) \<Longrightarrow> getSortingOptions a = getSortingOptions b"
  by (simp add: getSortingOptions_def)

lemma getSortingOptions_order_defined:
  "SortingState.order (fst (getSortingOptions this)) \<noteq> Undefined"
  by (simp add: getSortingOptions_def scanColumns_order_defined split: option.splits)

lemma setSorting_frame:
  "initialSorting (setSorting this ord cid) = initialSorting this"
  "grid (querying (setSorting this ord cid)) = grid (querying this)"
  by (simp_all add: setSorting_def Let_def)

lemma setSorting_stores_pair:
  "optColumnId (currentSorting (setSorting this ord cid)) = cid"
  "optOrder (currentSorting (setSorting this ord cid)) = ord"
  by (auto simp: setSorting_def Let_def optColumnId_def optOrder_def)

lemma setSorting_keeps_dirty:
  "shouldBeUpdated (querying this) \<Longrightarrow> shouldBeUpdated (querying (setSorting this ord cid))"
  by (simp add: setSorting_def Let_def)

lemma createModifier_reads:
  "currentSorting a = currentSorting b \<Longrightarrow> grid (querying a) = grid (querying b) \<Longrightarrow>
   createModifier a = createModifier b"
  by (simp add: createModifier_def split: option.splits)

lemma setSorting_rebuilds:
  "modifier (setSorting this ord cid) = createModifier (setSorting this ord cid)"
  by (simp add: setSorting_def Let_def createModifier_reads [of "_\<lparr>modifier := _\<rparr>"])

lemma setSorting_same_pair:
  "optColumnId (currentSorting this) = cid \<Longrightarrow> optOrder (currentSorting this) = ord \<Longrightarrow>
   setSorting this ord cid = this\<lparr>modifier := createModifier this\<rparr>"
  by (simp add: setSorting_def)

lemma state_of_pair:
  "optColumnId state = c \<Longrightarrow> optOrder state = v \<Longrightarrow> v \<noteq> Undefined \<Longrightarrow>
   state = Some \<lparr>columnId = c, order = v\<rparr>"
  by (cases state) (auto simp: optColumnId_def optOrder_def)

lemma loadOptions_frame:
  "grid (querying (fst (loadOptions this))) = grid (querying this)"
  "snd (loadOptions this) = snd (getSortingOptions this)"
  by (simp_all add: loadOptions_def setSorting_frame split: prod.splits)

text \<open>After \<open>loadOptions\<close> the recorded initial state is the state derived from the options.\<close>

lemma loadOptions_records_initial:
  "initialSorting (fst (loadOptions this)) = Some (fst (getSortingOptions this))"
proof (cases "getSortingOptions this")
  case (Pair derived warnings)
  have defined: "SortingState.order derived \<noteq> Undefined"
    using getSortingOptions_order_defined [of this] Pair by simp
  show ?thesis
  proof (cases "columnId derived \<noteq> optColumnId (initialSorting this) \<or>
                SortingState.order derived \<noteq> optOrder (initialSorting this)")
    case True
    then show ?thesis
      using Pair by (simp add: loadOptions_def setSorting_frame)
  next
    case False
    then have "initialSorting this =
               Some \<lparr>columnId = columnId derived, order = SortingState.order derived\<rparr>"
      using defined by (intro state_of_pair) simp_all
    then show ?thesis
      using Pair False by (simp add: loadOptions_def)
  qed
qed

text \<open>A reload is a no-op on the controller when the recorded initial state is current.\<close>

lemma loadOptions_up_to_date:
  "initialSorting this = Some (fst (getSortingOptions this)) \<Longrightarrow>
   loadOptions this = (this, snd (getSortingOptions this))"
  by (simp add: loadOptions_def optColumnId_def optOrder_def split: prod.splits)

lemma loadOptions_keeps_dirty:
  "shouldBeUpdated (querying this) \<Longrightarrow> shouldBeUpdated (querying (fst (loadOptions this)))"
  by (simp add: loadOptions_def setSorting_def Let_def split: prod.splits)

lemma perform_keeps_dirty:
  "shouldBeUpdated (querying this) \<Longrightarrow> shouldBeUpdated (querying (perform this c))"
  by (cases c) (simp_all add: setSorting_keeps_dirty loadOptions_keeps_dirty)

lemma performAll_keeps_dirty:
  "shouldBeUpdated (querying this) \<Longrightarrow> shouldBeUpdated (querying (performAll this calls))"
  unfolding performAll_def
  by (induction calls arbitrary: this) (simp_all add: perform_keeps_dirty)

lemma setSortings_frame:
  "initialSorting (setSortings this args) = initialSorting this"
  "grid (querying (setSortings this args)) = grid (querying this)"
  unfolding setSortings_def
  by (induction args arbitrary: this) (simp_all add: setSorting_frame split: prod.splits)


subsection \<open>Conflicting declarations\<close>




text \<open>
  The order of \<open>Object.keys\<close> is the order of declaration when no key is an array
  index.
\<close>

lemma objectKeys_without_indices:
  assumes "list_all (\<lambda>(k, v). \<not> arrayIndex k) declared"
  shows "objectKeys declared = declared"
proof -
  from assms have "filter (\<lambda>(k, v). arrayIndex k) declared = []"
    by (induction declared) auto
  moreover from assms have "filter (\<lambda>(k, v). \<not> arrayIndex k) declared = declared"
    by (induction declared) auto
  ultimately show ?thesis
    by (simp add: objectKeys_def)
qed

lemma arrayIndex_samples:
  "arrayIndex ''1'' \<and> arrayIndex ''0'' \<and> arrayIndex ''2020'' \<and> arrayIndex ''4294967294'' \<and>
   \<not> arrayIndex ''4294967295'' \<and> \<not> arrayIndex ''01'' \<and> \<not> arrayIndex ''B'' \<and>
   \<not> arrayIndex ''1.5'' \<and> \<not> arrayIndex []"
  by (simp add: arrayIndex_def decimalDigit_def decimalValue_def)

text \<open>
  With the columns declared as \<open>{ B: desc, '1': asc }\<close>, \<open>Object.keys\<close> yields
  \<open>['1', 'B']\<close>. The column declared last is \<open>'1'\<close>, but the scan, which runs
  from the end of the enumeration, settles on \<open>B\<close> and names \<open>B\<close> in the warning.
\<close>

lemma loadOptions_numeric_key:
  "objectKeys numericKeyDeclared =
     [(''1'', sortedColumn (Str ''asc'') None), (''B'', sortedColumn (Str ''desc'') None)] \<and>
   declaringColumns numericKeyDeclared = [''B'', ''1''] \<and>
   loadOptions (newSortingController (gridWith (Some (objectKeys numericKeyDeclared)))) =
     (\<lparr>querying = (gridWith (Some (objectKeys numericKeyDeclared)))\<lparr>shouldBeUpdated := True\<rparr>,
       currentSorting = Some \<lparr>columnId = Some ''B'', order = Str ''desc''\<rparr>,
       initialSorting = Some \<lparr>columnId = Some ''B'', order = Str ''desc''\<rparr>,
       modifier = Some \<lparr>orderByColumn = ''B'', direction = Str ''desc'', compare = None\<rparr>\<rparr>,
      [conflictWarning (Some ''B'')])"
proof -
  have keys: "objectKeys numericKeyDeclared =
     [(''1'', sortedColumn (Str ''asc'') None), (''B'', sortedColumn (Str ''desc'') None)]"
    by (simp add: objectKeys_def numericKeyDeclared_def arrayIndex_def decimalDigit_def
        decimalValue_def)
  have declared: "declaringColumns numericKeyDeclared = [''B'', ''1'']"
    by (simp add: declaringColumns_def declaredOrder_def numericKeyDeclared_def
        sortedColumn_def truthy_def)
  show ?thesis
    unfolding keys
    using declared
    by (simp add: declaredOrder_def sortedColumn_def gridWith_def newSortingController_def
        loadOptions_def getSortingOptions_def setSorting_def createModifier_def compareOf_def
        optColumnId_def optOrder_def truthy_def truthyId_def Let_def)
qed

subsection \<open>Order values outside the enumerated set\<close>

text \<open>
  Claim C2 says that \<open>setSorting\<close> rejects an order outside the enumerated set with an
  \<open>InvalidArgument\<close> error instead of storing it. The method has no validation and
  no \<open>throw\<close>: the order \<open>'sideways'\<close> is stored, marks the view dirty and becomes the
  direction of the modifier.
\<close>

theorem setSorting_unknown_order_counterexample:
  "Str ''sideways'' \<notin> ColumnSortingOrder \<and>
   setSorting (newSortingController (gridWith (Some conflictAB))) (Str ''sideways'') (Some ''A'') =
     \<lparr>querying = (gridWith (Some conflictAB))\<lparr>shouldBeUpdated := True\<rparr>,
      currentSorting = Some \<lparr>columnId = Some ''A'', order = Str ''sideways''\<rparr>,
      initialSorting = None,
      modifier =
        Some \<lparr>orderByColumn = ''A'', direction = Str ''sideways'', compare = None\<rparr>\<rparr>"
  by (simp add: ColumnSortingOrder_def conflictAB_def sortedColumn_def gridWith_def
      newSortingController_def setSorting_def createModifier_def compareOf_def
      optColumnId_def optOrder_def truthy_def truthyId_def Let_def)

text \<open>
  C2, amended: \<open>setSorting\<close> validates nothing. For every order value, inside the
  enumerated set or outside it, and every column identifier, the call completes and the
  stored pair read back through \<open>currentSorting?.order\<close> and
  \<open>currentSorting?.columnId\<close> is the pair of arguments as given.
\<close>

theorem setSorting_accepts_every_order:
  "optOrder (currentSorting (setSorting this ord cid)) = ord \<and>
   optColumnId (currentSorting (setSorting this ord cid)) = cid"
  by (simp add: setSorting_stores_pair)

theorem setSorting_accepts_every_order_witness:
  "Str ''sideways'' \<notin> ColumnSortingOrder \<and>
   optOrder (currentSorting
     (setSorting (newSortingController (gridWith None)) (Str ''sideways'') (Some ''A''))) =
     Str ''sideways'' \<and>
   optColumnId (currentSorting
     (setSorting (newSortingController (gridWith None)) (Str ''sideways'') (Some ''A''))) =
     Some ''A''"
  using setSorting_accepts_every_order
    [of "newSortingController (gridWith None)" "Str ''sideways''" "Some ''A''"]
  by (simp add: ColumnSortingOrder_def)


subsection \<open>Repeated calls of setSorting\<close>

text \<open>
  Claim C3: for every pair \<open>(order, columnId)\<close>, calling \<open>setSorting\<close> twice in
  succession with the same arguments, the dirty flag being cleared between the calls and
  the column options left alone, leaves \<open>shouldBeUpdated\<close> false after the second call,
  and the two calls produce value-equal modifier descriptors.
\<close>

theorem setSorting_twice_idempotent:
  "shouldBeUpdated (querying
     (setSorting (clearShouldBeUpdated (setSorting this ord cid)) ord cid)) = False \<and>
   modifier (setSorting (clearShouldBeUpdated (setSorting this ord cid)) ord cid) =
     modifier (setSorting this ord cid)"
proof -
  let ?first = "setSorting this ord cid"
  let ?cleared = "clearShouldBeUpdated ?first"
  have same: "optColumnId (currentSorting ?cleared) = cid" "optOrder (currentSorting ?cleared) = ord"
    by (simp_all add: clearShouldBeUpdated_def setSorting_stores_pair)
  have second: "setSorting ?cleared ord cid = ?cleared\<lparr>modifier := createModifier ?cleared\<rparr>"
    by (rule setSorting_same_pair [OF same])
  have "createModifier ?cleared = createModifier ?first"
    by (rule createModifier_reads) (simp_all add: clearShouldBeUpdated_def)
  then show ?thesis
    using second by (simp add: clearShouldBeUpdated_def setSorting_rebuilds)
qed

theorem setSorting_twice_idempotent_witness:
  "setSorting (newSortingController (gridWith (Some conflictAB))) (Str ''desc'') (Some ''B'') =
     \<lparr>querying = (gridWith (Some conflictAB))\<lparr>shouldBeUpdated := True\<rparr>,
      currentSorting = Some \<lparr>columnId = Some ''B'', order = Str ''desc''\<rparr>,
      initialSorting = None,
      modifier = Some \<lparr>orderByColumn = ''B'', direction = Str ''desc'', compare = Some 7\<rparr>\<rparr> \<and>
   shouldBeUpdated (querying
     (setSorting
       (clearShouldBeUpdated
         (setSorting (newSortingController (gridWith (Some conflictAB))) (Str ''desc'') (Some ''B'')))
       (Str ''desc'') (Some ''B''))) = False \<and>
   modifier
     (setSorting
       (clearShouldBeUpdated
         (setSorting (newSortingController (gridWith (Some conflictAB))) (Str ''desc'') (Some ''B'')))
       (Str ''desc'') (Some ''B'')) =
     Some \<lparr>orderByColumn = ''B'', direction = Str ''desc'', compare = Some 7\<rparr>"
proof -
  have first:
    "setSorting (newSortingController (gridWith (Some conflictAB))) (Str ''desc'') (Some ''B'') =
       \<lparr>querying = (gridWith (Some conflictAB))\<lparr>shouldBeUpdated := True\<rparr>,
        currentSorting = Some \<lparr>columnId = Some ''B'', order = Str ''desc''\<rparr>,
        initialSorting = None,
        modifier = Some \<lparr>orderByColumn = ''B'', direction = Str ''desc'', compare = Some 7\<rparr>\<rparr>"
    by (simp add: conflictAB_def sortedColumn_def gridWith_def newSortingController_def
        setSorting_def createModifier_def compareOf_def optColumnId_def optOrder_def
        truthy_def truthyId_def Let_def)
  from setSorting_twice_idempotent
    [of "newSortingController (gridWith (Some conflictAB))" "Str ''desc''" "Some ''B''"]
  show ?thesis
    unfolding first by simp
qed

subsection \<open>Dirtiness\<close>

text \<open>
  Claim C4: in every controller state, a call of \<open>setSorting\<close> whose pair differs from
  the stored pair field by field (an unset \<open>currentSorting\<close> reads as
  \<open>(undefined, undefined)\<close>, so the first call with an order such as \<open>null\<close> differs)
  sets \<open>shouldBeUpdated\<close> to true, and no later sequence of \<open>setSorting\<close> and
  \<open>loadOptions\<close> calls, even with the column options replaced in between, sets it back
  to false.
\<close>

theorem setSorting_dirty_monotonic:
  assumes "optColumnId (currentSorting this) \<noteq> cid \<or> optOrder (currentSorting this) \<noteq> ord"
  shows "shouldBeUpdated (querying (setSorting this ord cid)) \<and>
         shouldBeUpdated (querying (performAll (setSorting this ord cid) calls))"
proof -
  have "shouldBeUpdated (querying (setSorting this ord cid))"
    using assms by (auto simp: setSorting_def Let_def)
  then show ?thesis
    by (simp add: performAll_keeps_dirty)
qed

theorem setSorting_dirty_monotonic_witness:
  "currentSorting (newSortingController (gridWith None)) = None \<and>
   optOrder (currentSorting (newSortingController (gridWith None))) \<noteq> Null \<and>
   shouldBeUpdated (querying (setSorting (newSortingController (gridWith None)) Null None)) \<and>
   shouldBeUpdated (querying
     (performAll (setSorting (newSortingController (gridWith None)) Null None)
        [LoadOptions, SetSorting Null None, SetColumnOptionsMap (Some conflictAB), LoadOptions,
         SetSorting (Str ''asc'') (Some ''A''), SetSorting (Str ''asc'') (Some ''A'')]))"
proof -
  have unset: "currentSorting (newSortingController (gridWith None)) = None"
    by (simp add: newSortingController_def)
  then have differs: "optOrder (currentSorting (newSortingController (gridWith None))) \<noteq> Null"
    by (simp add: optOrder_def)
  then have "optColumnId (currentSorting (newSortingController (gridWith None))) \<noteq> None \<or>
             optOrder (currentSorting (newSortingController (gridWith None))) \<noteq> Null"
    by simp
  from setSorting_dirty_monotonic [OF this] unset differs show ?thesis
    by simp
qed

subsection \<open>The modifier is rebuilt on every call\<close>

text \<open>
  Claim C5: every call of \<open>setSorting\<close> rebuilds the modifier from the state it leaves,
  whether or not the pair changed. When the arguments equal the stored pair, the dirty
  flag and \<open>currentSorting\<close> are not touched, and the modifier is still constructed
  anew from the present column options, so that a comparator that was replaced in the
  options is picked up.
\<close>

theorem setSorting_rebuilds_modifier:
  "modifier (setSorting this ord cid) = createModifier (setSorting this ord cid) \<and>
   (optColumnId (currentSorting this) = cid \<and> optOrder (currentSorting this) = ord \<longrightarrow>
      currentSorting (setSorting this ord cid) = currentSorting this \<and>
      querying (setSorting this ord cid) = querying this \<and>
      initialSorting (setSorting this ord cid) = initialSorting this \<and>
      modifier (setSorting this ord cid) = createModifier this)"
proof -
  have "modifier (setSorting this ord cid) = createModifier (setSorting this ord cid)"
    by (rule setSorting_rebuilds)
  moreover have
    "currentSorting (setSorting this ord cid) = currentSorting this \<and>
     querying (setSorting this ord cid) = querying this \<and>
     initialSorting (setSorting this ord cid) = initialSorting this \<and>
     modifier (setSorting this ord cid) = createModifier this"
    if "optColumnId (currentSorting this) = cid" "optOrder (currentSorting this) = ord"
    using setSorting_same_pair [OF that] by simp
  ultimately show ?thesis
    by blast
qed


theorem setSorting_rebuilds_modifier_witness:
  "optColumnId (currentSorting staleComparator) = Some ''B'' \<and>
   optOrder (currentSorting staleComparator) = Str ''desc'' \<and>
   modifier staleComparator =
     Some \<lparr>orderByColumn = ''B'', direction = Str ''desc'', compare = Some 3\<rparr> \<and>
   modifier (setSorting staleComparator (Str ''desc'') (Some ''B'')) =
     Some \<lparr>orderByColumn = ''B'', direction = Str ''desc'', compare = Some 7\<rparr> \<and>
   currentSorting (setSorting staleComparator (Str ''desc'') (Some ''B'')) =
     currentSorting staleComparator \<and>
   querying (setSorting staleComparator (Str ''desc'') (Some ''B'')) = gridWith (Some conflictAB)"
proof -
  have same: "optColumnId (currentSorting staleComparator) = Some ''B'' \<and>
              optOrder (currentSorting staleComparator) = Str ''desc''"
    by (simp add: staleComparator_def optColumnId_def optOrder_def)
  have rebuilt: "createModifier staleComparator =
                 Some \<lparr>orderByColumn = ''B'', direction = Str ''desc'', compare = Some 7\<rparr>"
    by (simp add: staleComparator_def createModifier_def compareOf_def conflictAB_def
        sortedColumn_def gridWith_def truthy_def truthyId_def)
  have stale: "modifier staleComparator =
                 Some \<lparr>orderByColumn = ''B'', direction = Str ''desc'', compare = Some 3\<rparr>"
       and q: "querying staleComparator = gridWith (Some conflictAB)"
    by (simp_all add: staleComparator_def)
  from setSorting_rebuilds_modifier [of staleComparator "Str ''desc''" "Some ''B''"] same
  have "currentSorting (setSorting staleComparator (Str ''desc'') (Some ''B'')) =
          currentSorting staleComparator \<and>
        querying (setSorting staleComparator (Str ''desc'') (Some ''B'')) =
          querying staleComparator \<and>
        modifier (setSorting staleComparator (Str ''desc'') (Some ''B'')) =
          createModifier staleComparator"
    by blast
  with same rebuilt stale q show ?thesis
    by simp
qed

subsection \<open>Loading the options again\<close>

text \<open>
  Claim C6 says that a second \<open>loadOptions\<close> over unchanged options neither marks the
  view dirty again nor repeats the conflict warning. The flag is indeed left alone, but
  \<open>loadOptions\<close> starts by calling \<open>getSortingOptions\<close>, whose scan warns on every
  run: with \<open>{A: asc, B: desc}\<close> the second call writes the warning once more.
\<close>

theorem loadOptions_twice_counterexample:
  "snd (loadOptions (newSortingController (gridWith (Some conflictAB)))) =
     [conflictWarning (Some ''B'')] \<and>
   snd (loadOptions (clearShouldBeUpdated
          (fst (loadOptions (newSortingController (gridWith (Some conflictAB))))))) =
     [conflictWarning (Some ''B'')]"
  by (simp add: declaredOrder_def conflictAB_def sortedColumn_def gridWith_def
      newSortingController_def loadOptions_def getSortingOptions_def setSorting_def
      clearShouldBeUpdated_def optColumnId_def optOrder_def truthy_def truthyId_def Let_def)

text \<open>
  C6, amended: a second \<open>loadOptions\<close> over unchanged options, directly after the first
  or after the dirty flag was cleared, leaves the whole controller as it was, so
  \<open>shouldBeUpdated\<close> is not set again; it runs the scan again and writes to the console
  exactly what the first call wrote, the conflict warning included.
\<close>

theorem loadOptions_twice_same_state_same_warnings:
  "loadOptions (fst (loadOptions this)) = (fst (loadOptions this), snd (loadOptions this)) \<and>
   loadOptions (clearShouldBeUpdated (fst (loadOptions this))) =
     (clearShouldBeUpdated (fst (loadOptions this)), snd (loadOptions this))"
proof -
  let ?loaded = "fst (loadOptions this)"
  have derived: "getSortingOptions ?loaded = getSortingOptions this"
    by (rule getSortingOptions_reads_grid) (simp add: loadOptions_frame)
  have derived': "getSortingOptions (clearShouldBeUpdated ?loaded) = getSortingOptions this"
    by (rule getSortingOptions_reads_grid) (simp add: loadOptions_frame clearShouldBeUpdated_def)
  have "initialSorting ?loaded = Some (fst (getSortingOptions ?loaded))"
    by (simp add: derived loadOptions_records_initial)
  from loadOptions_up_to_date [OF this]
  have first: "loadOptions ?loaded = (?loaded, snd (loadOptions this))"
    by (simp add: derived loadOptions_frame)
  have "initialSorting (clearShouldBeUpdated ?loaded) = initialSorting ?loaded"
    by (simp add: clearShouldBeUpdated_def)
  then have "initialSorting (clearShouldBeUpdated ?loaded) =
             Some (fst (getSortingOptions (clearShouldBeUpdated ?loaded)))"
    unfolding derived' by (simp add: loadOptions_records_initial)
  from loadOptions_up_to_date [OF this]
  have "loadOptions (clearShouldBeUpdated ?loaded) =
        (clearShouldBeUpdated ?loaded, snd (loadOptions this))"
    by (simp add: derived' loadOptions_frame)
  with first show ?thesis
    by simp
qed

theorem loadOptions_twice_same_state_same_warnings_witness:
  "snd (loadOptions (newSortingController (gridWith (Some conflictABC)))) =
     [conflictWarning (Some ''C'')] \<and>
   loadOptions (fst (loadOptions (newSortingController (gridWith (Some conflictABC))))) =
     (fst (loadOptions (newSortingController (gridWith (Some conflictABC)))),
      [conflictWarning (Some ''C'')]) \<and>
   shouldBeUpdated (querying (fst (loadOptions (clearShouldBeUpdated
     (fst (loadOptions (newSortingController (gridWith (Some conflictABC))))))))) = False"
proof -
  have warned: "snd (loadOptions (newSortingController (gridWith (Some conflictABC)))) =
                [conflictWarning (Some ''C'')]"
    by (simp add: declaredOrder_def conflictABC_def sortedColumn_def plainColumn_def
        gridWith_def newSortingController_def loadOptions_def getSortingOptions_def
        truthy_def truthyId_def Let_def split: prod.splits)
  from loadOptions_twice_same_state_same_warnings
    [of "newSortingController (gridWith (Some conflictABC))"] warned
  show ?thesis
    by (simp add: clearShouldBeUpdated_def)
qed

text \<open>
  Claim C7: when the column options have not changed since the last \<open>loadOptions\<close>,
  then whatever state direct \<open>setSorting\<close> calls have installed since, a further
  \<open>loadOptions\<close> leaves \<open>currentSorting\<close> and the modifier, and with them the whole
  controller, unchanged.
\<close>

theorem loadOptions_keeps_caller_state:
  "fst (loadOptions (setSortings (fst (loadOptions this)) args)) =
     setSortings (fst (loadOptions this)) args"
proof -
  let ?loaded = "fst (loadOptions this)"
  let ?set = "setSortings ?loaded args"
  have "getSortingOptions ?set = getSortingOptions this"
    by (rule getSortingOptions_reads_grid) (simp add: setSortings_frame loadOptions_frame)
  then have "initialSorting ?set = Some (fst (getSortingOptions ?set))"
    by (simp add: setSortings_frame loadOptions_records_initial)
  from loadOptions_up_to_date [OF this] show ?thesis
    by simp
qed

theorem loadOptions_keeps_caller_state_witness:
  "setSortings (fst (loadOptions (newSortingController (gridWith (Some conflictAB)))))
     [(Null, None), (Str ''asc'', Some ''A'')] =
     \<lparr>querying = (gridWith (Some conflictAB))\<lparr>shouldBeUpdated := True\<rparr>,
      currentSorting = Some \<lparr>columnId = Some ''A'', order = Str ''asc''\<rparr>,
      initialSorting = Some \<lparr>columnId = Some ''B'', order = Str ''desc''\<rparr>,
      modifier = Some \<lparr>orderByColumn = ''A'', direction = Str ''asc'', compare = None\<rparr>\<rparr> \<and>
   fst (loadOptions
     (setSortings (fst (loadOptions (newSortingController (gridWith (Some conflictAB)))))
        [(Null, None), (Str ''asc'', Some ''A'')])) =
     \<lparr>querying = (gridWith (Some conflictAB))\<lparr>shouldBeUpdated := True\<rparr>,
      currentSorting = Some \<lparr>columnId = Some ''A'', order = Str ''asc''\<rparr>,
      initialSorting = Some \<lparr>columnId = Some ''B'', order = Str ''desc''\<rparr>,
      modifier = Some \<lparr>orderByColumn = ''A'', direction = Str ''asc'', compare = None\<rparr>\<rparr>"
proof -
  have installed:
    "setSortings (fst (loadOptions (newSortingController (gridWith (Some conflictAB)))))
       [(Null, None), (Str ''asc'', Some ''A'')] =
       \<lparr>querying = (gridWith (Some conflictAB))\<lparr>shouldBeUpdated := True\<rparr>,
        currentSorting = Some \<lparr>columnId = Some ''A'', order = Str ''asc''\<rparr>,
        initialSorting = Some \<lparr>columnId = Some ''B'', order = Str ''desc''\<rparr>,
        modifier = Some \<lparr>orderByColumn = ''A'', direction = Str ''asc'', compare = None\<rparr>\<rparr>"
    by (simp add: setSortings_def declaredOrder_def conflictAB_def sortedColumn_def
        gridWith_def newSortingController_def loadOptions_def getSortingOptions_def
        setSorting_def createModifier_def compareOf_def optColumnId_def optOrder_def
        truthy_def truthyId_def Let_def)
  from loadOptions_keeps_caller_state
    [of "newSortingController (gridWith (Some conflictAB))"
        "[(Null, None), (Str ''asc'', Some ''A'')]"]
  show ?thesis
    unfolding installed by simp
qed

subsection \<open>Empty and absent column options\<close>

text \<open>
  Claim C8: when there is no column options map at all, or the map has no column that
  declares a sorting order (the empty map included), the state derived from the options
  has the order \<open>null\<close> and no column identifier; deriving it is a plain return, with
  no error and no warning.
\<close>

theorem getSortingOptions_without_declarations:
  assumes "case columnOptionsMap (grid (querying this)) of
             None \<Rightarrow> True | Some m \<Rightarrow> declaringColumns m = []"
  shows "getSortingOptions this = (\<lparr>columnId = None, order = Null\<rparr>, [])"
proof (cases "columnOptionsMap (grid (querying this))")
  case None
  then show ?thesis
    by (simp add: getSortingOptions_def)
next
  case (Some m)
  with assms have "filter (\<lambda>cid. truthy (declaredOrder m cid))
                     (take (length (map fst m)) (map fst m)) = []"
    by (simp add: declaringColumns_def)
  from scanColumns_none_declared [OF le_refl this] Some show ?thesis
    by (simp add: getSortingOptions_def)
qed

theorem getSortingOptions_without_declarations_witness:
  "declaringColumns noSorting = [] \<and>
   getSortingOptions (newSortingController (gridWith (Some noSorting))) =
     (\<lparr>columnId = None, order = Null\<rparr>, []) \<and>
   getSortingOptions (newSortingController (gridWith (Some []))) =
     (\<lparr>columnId = None, order = Null\<rparr>, []) \<and>
   getSortingOptions (newSortingController (gridWith None)) =
     (\<lparr>columnId = None, order = Null\<rparr>, [])"
proof -
  have none: "declaringColumns noSorting = []"
    by (simp add: declaringColumns_def declaredOrder_def noSorting_def sortedColumn_def
        plainColumn_def truthy_def)
  have "case columnOptionsMap (grid (querying (newSortingController (gridWith (Some noSorting))))) of
          None \<Rightarrow> True | Some m \<Rightarrow> declaringColumns m = []"
    by (simp add: none newSortingController_def gridWith_def)
  note full = getSortingOptions_without_declarations [OF this]
  have "case columnOptionsMap (grid (querying (newSortingController (gridWith (Some []))))) of
          None \<Rightarrow> True | Some (m :: nat ColumnOptionsMap) \<Rightarrow> declaringColumns m = []"
    by (simp add: declaringColumns_def newSortingController_def gridWith_def)
  note empty = getSortingOptions_without_declarations [OF this]
  have "case columnOptionsMap (grid (querying (newSortingController (gridWith None)))) of
          None \<Rightarrow> True | Some m \<Rightarrow> declaringColumns m = []"
    by (simp add: newSortingController_def gridWith_def)
  note absent = getSortingOptions_without_declarations [OF this]
  from none full empty absent show ?thesis
    by simp
qed

subsection \<open>Constructing the modifier\<close>

text \<open>
  Claim C9 says that no modifier is produced when \<open>columnId\<close> is absent, \<open>order\<close> is
  falsy or \<open>currentSorting\<close> is unset, and that a sort modifier is produced otherwise.
  The guard of \<open>createModifier\<close> is \<open>!order || !columnId\<close>, and the empty string is
  falsy: a column identifier that is present but empty yields no modifier, although the
  order is \<open>'desc'\<close>.
\<close>

theorem createModifier_empty_column_counterexample:
  "currentSorting
     (setSorting (newSortingController (gridWith (Some conflictEmptyKey))) (Str ''desc'') (Some [])) =
     Some \<lparr>columnId = Some [], order = Str ''desc''\<rparr> \<and>
   truthy (Str ''desc'') \<and>
   createModifier
     (setSorting (newSortingController (gridWith (Some conflictEmptyKey))) (Str ''desc'') (Some [])) =
     None"
  by (simp add: gridWith_def newSortingController_def setSorting_def createModifier_def
      optColumnId_def optOrder_def truthy_def truthyId_def Let_def)

text \<open>
  C9, amended: no modifier is produced when \<open>currentSorting\<close> is unset, when
  \<open>columnId\<close> is falsy (absent or the empty string) or when \<open>order\<close> is falsy
  (\<open>undefined\<close>, \<open>null\<close> or the empty string). Otherwise the modifier has
  \<open>orderByColumn = columnId\<close>, \<open>direction = order\<close> and the comparator read from
  the column options, which is the \<open>compare\<close> of that column's \<open>sorting\<close> entry when
  the column has one.
\<close>

theorem createModifier_cases:
  "(currentSorting this = None \<longrightarrow> createModifier this = None) \<and>
   (currentSorting this = Some cs \<and> (columnId cs = None \<or> columnId cs = Some []) \<longrightarrow>
      createModifier this = None) \<and>
   (currentSorting this = Some cs \<and> \<not> truthy (SortingState.order cs) \<longrightarrow>
      createModifier this = None) \<and>
   (currentSorting this = Some cs \<and> columnId cs = Some cid \<and> cid \<noteq> [] \<and>
    truthy (SortingState.order cs) \<longrightarrow>
      createModifier this =
        Some \<lparr>orderByColumn = cid, direction = SortingState.order cs,
              compare = compareOf (grid (querying this)) cid\<rparr>) \<and>
   (columnOptionsMap g = Some m \<and> map_of m cid = Some column \<and>
    options column = Some opts \<and> sorting opts = Some s \<longrightarrow>
      compareOf g cid = ColumnSortingOptions.compare s)"
  by (auto simp: createModifier_def compareOf_def truthyId_def)

theorem createModifier_cases_witness:
  "currentSorting staleComparator = Some \<lparr>columnId = Some ''B'', order = Str ''desc''\<rparr> \<and>
   truthy (Str ''desc'') \<and>
   map_of conflictAB ''B'' = Some (sortedColumn (Str ''desc'') (Some 7)) \<and>
   createModifier staleComparator =
     Some \<lparr>orderByColumn = ''B'', direction = Str ''desc'', compare = Some 7\<rparr> \<and>
   createModifier (newSortingController (gridWith (Some conflictAB))) = None \<and>
   createModifier (setSorting staleComparator Null (Some ''B'')) = None"
proof -
  have cur: "currentSorting staleComparator = Some \<lparr>columnId = Some ''B'', order = Str ''desc''\<rparr>"
    by (simp add: staleComparator_def)
  have ord: "truthy (Str ''desc'')"
    by (simp add: truthy_def)
  have entry: "map_of conflictAB ''B'' = Some (sortedColumn (Str ''desc'') (Some 7))"
    by (simp add: conflictAB_def)
  have grid: "columnOptionsMap (grid (querying staleComparator)) = Some conflictAB"
    by (simp add: staleComparator_def gridWith_def)
  note inst = createModifier_cases
    [of staleComparator "\<lparr>columnId = Some ''B'', order = Str ''desc''\<rparr>" "''B''"
        "grid (querying staleComparator)" conflictAB "sortedColumn (Str ''desc'') (Some 7)"
        "\<lparr>sorting = Some \<lparr>ColumnSortingOptions.order = Str ''desc'',
                           ColumnSortingOptions.compare = Some 7\<rparr>\<rparr>"
        "\<lparr>ColumnSortingOptions.order = Str ''desc'', ColumnSortingOptions.compare = Some 7\<rparr>"]
  have cmp: "compareOf (grid (querying staleComparator)) ''B'' = Some 7"
    using inst grid entry by (simp add: sortedColumn_def)
  have built: "createModifier staleComparator =
               Some \<lparr>orderByColumn = ''B'', direction = Str ''desc'', compare = Some 7\<rparr>"
    using inst cur ord cmp by simp
  have unset: "createModifier (newSortingController (gridWith (Some conflictAB))) = None"
    using createModifier_cases
      [THEN conjunct1, of "newSortingController (gridWith (Some conflictAB))"]
    by (simp add: newSortingController_def)
  have "currentSorting (setSorting staleComparator Null (Some ''B'')) =
        Some \<lparr>columnId = Some ''B'', order = Null\<rparr>"
    by (simp add: setSorting_def staleComparator_def optColumnId_def optOrder_def Let_def)
  with createModifier_cases
    [THEN conjunct2, THEN conjunct2, THEN conjunct1,
     of "setSorting staleComparator Null (Some ''B'')" "\<lparr>columnId = Some ''B'', order = Null\<rparr>"]
  have inert: "createModifier (setSorting staleComparator Null (Some ''B'')) = None"
    by (simp add: truthy_def)
  from cur ord entry built unset inert show ?thesis
    by simp
qed

subsection \<open>The first load\<close>

text \<open>
  Claim C10: on a freshly constructed controller, where \<open>initialSorting\<close> and
  \<open>currentSorting\<close> are both unset, the first \<open>loadOptions\<close> always sets
  \<open>shouldBeUpdated\<close> to true, also when the column options map is empty or absent:
  the derived order is \<open>null\<close> or a declared order, never \<open>undefined\<close>, so it differs
  from the unset initial state, and the \<open>setSorting\<close> call that follows sees a changed
  pair.
\<close>

theorem first_loadOptions_marks_dirty:
  assumes "initialSorting this = None" and "currentSorting this = None"
  shows "shouldBeUpdated (querying (fst (loadOptions this)))"
proof (cases "getSortingOptions this")
  case (Pair derived warnings)
  have defined: "SortingState.order derived \<noteq> Undefined"
    using getSortingOptions_order_defined [of this] Pair by simp
  then have "loadOptions this =
             (setSorting (this\<lparr>initialSorting := Some derived\<rparr>)
                (SortingState.order derived) (columnId derived), warnings)"
    using Pair assms(1) by (simp add: loadOptions_def optOrder_def)
  moreover have "shouldBeUpdated (querying
    (setSorting (this\<lparr>initialSorting := Some derived\<rparr>) (SortingState.order derived) (columnId derived)))"
    using defined assms(2) by (simp add: setSorting_def optOrder_def Let_def)
  ultimately show ?thesis
    by simp
qed

theorem first_loadOptions_marks_dirty_witness:
  "initialSorting (newSortingController (gridWith None)) = None \<and>
   currentSorting (newSortingController (gridWith None)) = None \<and>
   shouldBeUpdated (querying (newSortingController (gridWith None))) = False \<and>
   shouldBeUpdated (querying (fst (loadOptions (newSortingController (gridWith None))))) \<and>
   shouldBeUpdated (querying (fst (loadOptions (newSortingController (gridWith (Some []))))))"
proof -
  have absent: "initialSorting (newSortingController (gridWith None)) = None"
    "currentSorting (newSortingController (gridWith None)) = None"
    by (simp_all add: newSortingController_def)
  have empty: "initialSorting (newSortingController (gridWith (Some []))) = None"
    "currentSorting (newSortingController (gridWith (Some []))) = None"
    by (simp_all add: newSortingController_def)
  have clean: "shouldBeUpdated (querying (newSortingController (gridWith None))) = False"
    by (simp add: newSortingController_def gridWith_def)
  from first_loadOptions_marks_dirty [OF absent] first_loadOptions_marks_dirty [OF empty]
    absent clean
  show ?thesis
    by simp
qed


end
